theory Spec2Isabelle
  imports Complex_Main "HOL-Library.Log_Nat"
begin

section \<open>Data model of the MySkoda sensor platform\<close>

text \<open>
  The integration reads a vehicle snapshot supplied by the \<^verbatim>\<open>myskoda\<close> client library
  and exposes one sensor entity per class of \<^verbatim>\<open>sensor.py\<close>. Python names are kept; a
  leading underscore (not an Isabelle identifier) is replaced by the name of the
  class that owns the attribute, so \<^verbatim>\<open>ChargingSensor._status\<close> is
  \<open>ChargingSensor_status\<close>. Exceptions are values: a computation returns
  \<open>exn + 'a\<close>, with \<open>Inl\<close> for a raise. A Python \<^verbatim>\<open>None\<close> result is \<open>None\<close>.
\<close>

datatype exn =
    AttributeError
  | KeyError
  | AssertionError
  | ZeroDivisionError
  | OverflowError
  | CannotConnect
  | AuthorizationFailedError
  | OtherException string
  | NonException string

text \<open>
  \<open>OtherException n\<close> is an instance of any further subclass of \<^verbatim>\<open>Exception\<close>;
  \<open>NonException n\<close> is an instance of a class deriving from \<^verbatim>\<open>BaseException\<close> only
  (\<^verbatim>\<open>asyncio.CancelledError\<close>, \<^verbatim>\<open>KeyboardInterrupt\<close>), which \<^verbatim>\<open>except Exception\<close>
  does not catch.
\<close>

fun isinstance_Exception :: "exn \<Rightarrow> bool" where
  "isinstance_Exception (NonException n) = False"
| "isinstance_Exception e = True"

datatype CapabilityId =
    CHARGING
  | VEHICLE_HEALTH_INSPECTION
  | STATE
  | OtherCapability string

text \<open>
  The members of \<^verbatim>\<open>charging.ChargingState\<close> and of the charge type. The member
  called \<^verbatim>\<open>CHARGING\<close> in Python is \<open>CHARGING_ACTIVE\<close> here, the name \<open>CHARGING\<close>
  being taken by the capability.
\<close>

datatype ChargingStateEnum = CONNECT_CABLE | READY_FOR_CHARGING | CONSERVING | CHARGING_ACTIVE

datatype ChargeTypeEnum = AC | DC

datatype datetime = Datetime int

record Battery =
  state_of_charge_in_percent :: int
  remaining_cruising_range_in_meters :: int

record ChargingStatus =
  battery :: Battery
  charge_power_in_kw :: rat
  charge_type :: "ChargeTypeEnum option"
  state :: "ChargingStateEnum option"
  remaining_time_to_fully_charged_in_minutes :: int

record Settings =
  target_state_of_charge_in_percent :: int

text \<open>\<open>charging_status\<close> is the attribute \<^verbatim>\<open>status\<close> of \<^verbatim>\<open>Charging\<close>.\<close>

record Charging =
  charging_status :: "ChargingStatus option"
  settings :: Settings

record Health =
  mileage_in_km :: int

record MaintenanceReport =
  inspection_due_in_days :: int

record Maintenance =
  maintenance_report :: "MaintenanceReport option"

record Status =
  car_captured_timestamp :: datetime

record Info =
  software_version :: string

text \<open>
  The snapshot. Every sub-record may be absent (\<open>None\<close>), as the specification's data
  model has it.
\<close>

record Vehicle =
  info :: "Info option"
  charging :: "Charging option"
  health :: "Health option"
  maintenance :: "Maintenance option"
  status :: "Status option"

datatype val = VInt int | VFloat rat | VStr string | VDatetime datetime

section \<open>Strings\<close>

definition lower_char :: "char \<Rightarrow> char" where
  "lower_char c =
     (let n = (of_char c :: nat) in if 65 \<le> n \<and> n \<le> 90 then char_of (n + 32) else c)"

definition lower :: "string \<Rightarrow> string" where
  "lower s = map lower_char s"

text \<open>
  Modelled from the spec: the string of an enumeration member of the client library
  (\<^verbatim>\<open>myskoda.models.charging\<close> is not part of the repository). The members are
  string-valued, the string being the member's name; \<^verbatim>\<open>str(None)\<close> is Python's.
\<close>

fun str_ChargingState :: "ChargingStateEnum option \<Rightarrow> string" where
  "str_ChargingState None = ''None''"
| "str_ChargingState (Some CONNECT_CABLE) = ''CONNECT_CABLE''"
| "str_ChargingState (Some READY_FOR_CHARGING) = ''READY_FOR_CHARGING''"
| "str_ChargingState (Some CONSERVING) = ''CONSERVING''"
| "str_ChargingState (Some CHARGING_ACTIVE) = ''CHARGING''"

fun str_ChargeType :: "ChargeTypeEnum option \<Rightarrow> string" where
  "str_ChargeType None = ''None''"
| "str_ChargeType (Some AC) = ''AC''"
| "str_ChargeType (Some DC) = ''DC''"

section \<open>ChargingSensor\<close>

definition ChargingSensor_charging :: "Vehicle \<Rightarrow> Charging option" where
  "ChargingSensor_charging v = (case charging v of Some c \<Rightarrow> Some c | None \<Rightarrow> None)"

definition ChargingSensor_status :: "Vehicle \<Rightarrow> ChargingStatus option" where
  "ChargingSensor_status v =
     (case ChargingSensor_charging v of
        Some c \<Rightarrow> (case charging_status c of Some st \<Rightarrow> Some st | None \<Rightarrow> None)
      | None \<Rightarrow> None)"

definition ChargingSensor_required_capabilities :: "CapabilityId list" where
  "ChargingSensor_required_capabilities = [CHARGING]"

section \<open>BatteryPercentage\<close>

definition BatteryPercentage_native_value :: "Vehicle \<Rightarrow> exn + val option" where
  "BatteryPercentage_native_value v =
     (case ChargingSensor_status v of
        Some st \<Rightarrow> Inr (Some (VInt (state_of_charge_in_percent (battery st))))
      | None \<Rightarrow> Inr None)"

text \<open>The \<^verbatim>\<open>if\<close>/\<^verbatim>\<open>elif\<close> chain of \<^verbatim>\<open>icon\<close> that assigns the local variable \<^verbatim>\<open>suffix\<close>.\<close>

definition BatteryPercentage_icon_suffix :: "int \<Rightarrow> string" where
  "BatteryPercentage_icon_suffix p =
     (if p \<ge> 95 then ''100''
      else if p \<ge> 85 then ''90''
      else if p \<ge> 75 then ''80''
      else if p \<ge> 65 then ''70''
      else if p \<ge> 55 then ''60''
      else if p \<ge> 45 then ''50''
      else if p \<ge> 35 then ''40''
      else if p \<ge> 25 then ''30''
      else if p \<ge> 15 then ''20''
      else if p \<ge> 5 then ''10''
      else ''outline'')"

definition BatteryPercentage_icon :: "Vehicle \<Rightarrow> string" where
  "BatteryPercentage_icon v =
     (case ChargingSensor_status v of
        None \<Rightarrow> ''mdi:battery-outline''
      | Some st \<Rightarrow>
          (let suffix = BatteryPercentage_icon_suffix (state_of_charge_in_percent (battery st))
           in if state st \<noteq> Some CONNECT_CABLE then ''mdi:battery-charging-'' @ suffix
              else if suffix = ''100'' then ''mdi:battery''
              else ''mdi:battery-'' @ suffix))"

text \<open>
  The banding in the specification's words: ten-point buckets, from \<open>\<ge> 95\<close> for the
  bucket "100" down to \<open>< 5\<close> for "outline"; in between, the bucket is the multiple of ten
  nearest to the percentage (a percentage ending in 5 going up), written in decimal.
\<close>

definition digit_char :: "int \<Rightarrow> char" where
  "digit_char d =
     (if d = 0 then CHR ''0'' else if d = 1 then CHR ''1'' else if d = 2 then CHR ''2''
      else if d = 3 then CHR ''3'' else if d = 4 then CHR ''4'' else if d = 5 then CHR ''5''
      else if d = 6 then CHR ''6'' else if d = 7 then CHR ''7'' else if d = 8 then CHR ''8''
      else CHR ''9'')"

definition ten_point_bucket :: "int \<Rightarrow> string" where
  "ten_point_bucket p =
     (if 95 \<le> p then ''100''
      else if p < 5 then ''outline''
      else [digit_char ((p + 5) div 10), CHR ''0''])"

section \<open>Python's true division of integers\<close>

text \<open>
  \<^verbatim>\<open>a / b\<close> on two Python integers is the binary64 number nearest to the exact
  quotient, ties going to the even significand; it raises \<^verbatim>\<open>ZeroDivisionError\<close> for
  \<open>b = 0\<close> and \<^verbatim>\<open>OverflowError\<close> when the rounded quotient leaves the binary64 range.
  A float is represented by the rational number it denotes (the sign of a zero is not
  kept).
\<close>

definition pow2 :: "int \<Rightarrow> rat" where
  "pow2 e = (if 0 \<le> e then 2 ^ nat e else 1 / 2 ^ nat (- e))"

definition round_half_even :: "rat \<Rightarrow> int" where
  "round_half_even x =
     (let f = \<lfloor>x\<rfloor>; d = x - of_int f
      in if d < 1 / 2 then f
         else if 1 / 2 < d then f + 1
         else if even f then f else f + 1)"

text \<open>\<open>ilog2 x\<close> is the exponent \<open>e\<close> with \<open>2\<^sup>e \<le> x < 2\<^sup>e\<^sup>+\<^sup>1\<close>, for \<open>x > 0\<close>.\<close>

definition ilog2 :: "rat \<Rightarrow> int" where
  "ilog2 x =
     (let (a, b) = quotient_of x; e0 = bitlen a - bitlen b
      in if pow2 e0 \<le> x then e0 else e0 - 1)"

text \<open>
  The nearest binary64 number, overflow apart: the sign is set aside and the magnitude
  is rounded to a multiple of the unit in the last place \<open>u\<close>, which is \<open>2\<^sup>e\<^sup>-\<^sup>5\<^sup>2\<close> for a
  magnitude in \<open>[2\<^sup>e, 2\<^sup>e\<^sup>+\<^sup>1)\<close> and \<open>2\<^sup>-\<^sup>1\<^sup>0\<^sup>7\<^sup>4\<close> below the normal range.
\<close>

definition float_round :: "rat \<Rightarrow> rat" where
  "float_round x =
     (if x = 0 then 0
      else let e = max (ilog2 \<bar>x\<bar>) (- 1022); u = pow2 (e - 52)
           in sgn x * (of_int (round_half_even (\<bar>x\<bar> / u)) * u))"

definition py_truediv :: "int \<Rightarrow> int \<Rightarrow> exn + rat" where
  "py_truediv a b =
     (if b = 0 then Inl ZeroDivisionError
      else let r = float_round (of_int a / of_int b)
           in if 2 ^ 1024 \<le> \<bar>r\<bar> then Inl OverflowError else Inr r)"

section \<open>The other sensors\<close>

definition SoftwareVersion_native_value :: "Vehicle \<Rightarrow> exn + val option" where
  "SoftwareVersion_native_value v =
     (case info v of
        None \<Rightarrow> Inl AttributeError
      | Some i \<Rightarrow> Inr (Some (VStr (software_version i))))"

definition ChargingPower_native_value :: "Vehicle \<Rightarrow> exn + val option" where
  "ChargingPower_native_value v =
     (case ChargingSensor_status v of
        Some st \<Rightarrow> Inr (Some (VFloat (charge_power_in_kw st)))
      | None \<Rightarrow> Inr None)"

definition RemainingDistance_native_value :: "Vehicle \<Rightarrow> exn + val option" where
  "RemainingDistance_native_value v =
     (case ChargingSensor_status v of
        Some st \<Rightarrow>
          (case py_truediv (remaining_cruising_range_in_meters (battery st)) 1000 of
             Inl e \<Rightarrow> Inl e
           | Inr f \<Rightarrow> Inr (Some (VFloat f)))
      | None \<Rightarrow> Inr None)"

definition TargetBatteryPercentage_native_value :: "Vehicle \<Rightarrow> exn + val option" where
  "TargetBatteryPercentage_native_value v =
     (case ChargingSensor_charging v of
        Some c \<Rightarrow> Inr (Some (VInt (target_state_of_charge_in_percent (settings c))))
      | None \<Rightarrow> Inr None)"

definition Mileage_native_value :: "Vehicle \<Rightarrow> exn + val option" where
  "Mileage_native_value v =
     (case health v of
        Some h \<Rightarrow> Inr (Some (VInt (mileage_in_km h)))
      | None \<Rightarrow> Inr None)"

definition Mileage_required_capabilities :: "CapabilityId list" where
  "Mileage_required_capabilities = [VEHICLE_HEALTH_INSPECTION]"

definition InspectionInterval_native_value :: "Vehicle \<Rightarrow> exn + val option" where
  "InspectionInterval_native_value v =
     (case maintenance v of
        None \<Rightarrow> Inl AttributeError
      | Some m \<Rightarrow>
          (case maintenance_report m of
             Some r \<Rightarrow> Inr (Some (VInt (inspection_due_in_days r)))
           | None \<Rightarrow> Inr None))"

definition InspectionInterval_required_capabilities :: "CapabilityId list" where
  "InspectionInterval_required_capabilities = [VEHICLE_HEALTH_INSPECTION]"

definition ChargeType_native_value :: "Vehicle \<Rightarrow> exn + val option" where
  "ChargeType_native_value v =
     (case ChargingSensor_status v of
        Some st \<Rightarrow> Inr (Some (VStr (lower (str_ChargeType (charge_type st)))))
      | None \<Rightarrow> Inr None)"

text \<open>
  \<^verbatim>\<open>status.charge_type == "DC"\<close> compares a string-valued member with a string: it
  holds for the member whose string is \<^verbatim>\<open>DC\<close>, and not for \<^verbatim>\<open>None\<close>.
\<close>

definition ChargeType_icon :: "Vehicle \<Rightarrow> string" where
  "ChargeType_icon v =
     (case ChargingSensor_status v of
        Some st \<Rightarrow>
          (if charge_type st \<noteq> None \<and> str_ChargeType (charge_type st) = ''DC''
           then ''mdi:ev-plug-ccs2'' else ''mdi:ev-plug-type2'')
      | None \<Rightarrow> ''mdi:ev-plug-type2'')"

definition ChargingState_attr_options :: "string list" where
  "ChargingState_attr_options =
     [''connect_cable'', ''ready_for_charging'', ''conserving'', ''charging'']"

text \<open>
  \<^verbatim>\<open>if status.state:\<close> is the truth value of the member: false for \<^verbatim>\<open>None\<close> and for
  a member whose string is empty.
\<close>

definition ChargingState_native_value :: "Vehicle \<Rightarrow> exn + val option" where
  "ChargingState_native_value v =
     (case ChargingSensor_status v of
        Some st \<Rightarrow>
          (if state st \<noteq> None \<and> str_ChargingState (state st) \<noteq> []
           then Inr (Some (VStr (lower (str_ChargingState (state st)))))
           else Inr None)
      | None \<Rightarrow> Inr None)"

definition ChargingState_icon :: "Vehicle \<Rightarrow> string" where
  "ChargingState_icon v =
     (case ChargingSensor_status v of
        Some st \<Rightarrow>
          (if state st = Some CONNECT_CABLE then ''mdi:power-plug-off''
           else if state st = Some CHARGING_ACTIVE then ''mdi:power-plug-battery''
           else ''mdi:power-plug'')
      | None \<Rightarrow> ''mdi:power-plug'')"

definition RemainingChargingTime_native_value :: "Vehicle \<Rightarrow> exn + val option" where
  "RemainingChargingTime_native_value v =
     (case ChargingSensor_status v of
        Some st \<Rightarrow> Inr (Some (VInt (remaining_time_to_fully_charged_in_minutes st)))
      | None \<Rightarrow> Inr None)"

definition LastUpdated_native_value :: "Vehicle \<Rightarrow> exn + val option" where
  "LastUpdated_native_value v =
     (case status v of
        Some s \<Rightarrow> Inr (Some (VDatetime (car_captured_timestamp s)))
      | None \<Rightarrow> Inr None)"

definition LastUpdated_required_capabilities :: "CapabilityId list" where
  "LastUpdated_required_capabilities = [STATE]"

text \<open>
  \<^verbatim>\<open>MainRender.native_value\<close> is \<^verbatim>\<open>self.get_renders().get("main")\<close>. The helper
  \<^verbatim>\<open>get_renders\<close> belongs to \<^verbatim>\<open>entity.py\<close>; it is a parameter here, returning the
  dictionary of render URLs or raising.
\<close>

definition MainRender_native_value ::
  "(Vehicle \<Rightarrow> exn + (string \<rightharpoonup> string)) \<Rightarrow> Vehicle \<Rightarrow> exn + val option" where
  "MainRender_native_value get_renders v =
     (case get_renders v of
        Inl e \<Rightarrow> Inl e
      | Inr d \<Rightarrow> Inr (map_option VStr (d ''main'')))"

section \<open>Sensor kinds and dispatch\<close>

datatype sensor =
    BatteryPercentage
  | ChargeType
  | ChargingPower
  | ChargingState
  | InspectionInterval
  | LastUpdated
  | MainRender
  | Mileage
  | RemainingChargingTime
  | RemainingDistance
  | SoftwareVersion
  | TargetBatteryPercentage

fun native_value ::
  "(Vehicle \<Rightarrow> exn + (string \<rightharpoonup> string)) \<Rightarrow> sensor \<Rightarrow> Vehicle \<Rightarrow> exn + val option" where
  "native_value g BatteryPercentage v = BatteryPercentage_native_value v"
| "native_value g ChargeType v = ChargeType_native_value v"
| "native_value g ChargingPower v = ChargingPower_native_value v"
| "native_value g ChargingState v = ChargingState_native_value v"
| "native_value g InspectionInterval v = InspectionInterval_native_value v"
| "native_value g LastUpdated v = LastUpdated_native_value v"
| "native_value g MainRender v = MainRender_native_value g v"
| "native_value g Mileage v = Mileage_native_value v"
| "native_value g RemainingChargingTime v = RemainingChargingTime_native_value v"
| "native_value g RemainingDistance v = RemainingDistance_native_value v"
| "native_value g SoftwareVersion v = SoftwareVersion_native_value v"
| "native_value g TargetBatteryPercentage v = TargetBatteryPercentage_native_value v"

text \<open>
  The classes deriving from \<^verbatim>\<open>ChargingSensor\<close> inherit its
  \<^verbatim>\<open>required_capabilities\<close>; \<^verbatim>\<open>Mileage\<close>, \<^verbatim>\<open>InspectionInterval\<close> and \<^verbatim>\<open>LastUpdated\<close>
  define their own. \<^verbatim>\<open>SoftwareVersion\<close> and \<^verbatim>\<open>MainRender\<close> inherit the method of
  \<^verbatim>\<open>MySkodaEntity\<close>, which is not in \<^verbatim>\<open>sensor.py\<close>.

  Modelled from the spec: \<^verbatim>\<open>MySkodaEntity.required_capabilities\<close> (in \<^verbatim>\<open>entity.py\<close>):
  a sensor declares zero or more required capabilities, the default being none.
\<close>

definition MySkodaEntity_required_capabilities :: "CapabilityId list" where
  "MySkodaEntity_required_capabilities = []"

fun required_capabilities :: "sensor \<Rightarrow> CapabilityId list" where
  "required_capabilities Mileage = Mileage_required_capabilities"
| "required_capabilities InspectionInterval = InspectionInterval_required_capabilities"
| "required_capabilities LastUpdated = LastUpdated_required_capabilities"
| "required_capabilities SoftwareVersion = MySkodaEntity_required_capabilities"
| "required_capabilities MainRender = MySkodaEntity_required_capabilities"
| "required_capabilities s = ChargingSensor_required_capabilities"

text \<open>
  Modelled from the spec: the availability check of \<^verbatim>\<open>MySkodaEntity\<close> (in
  \<^verbatim>\<open>entity.py\<close>): if the vehicle's capability set lacks any required tag, the sensor is
  marked unavailable.
\<close>

definition MySkodaEntity_available :: "CapabilityId list \<Rightarrow> CapabilityId set \<Rightarrow> bool" where
  "MySkodaEntity_available required caps = list_all (\<lambda>c. c \<in> caps) required"

text \<open>\<^verbatim>\<open>BatteryPercentage\<close> overrides the property: \<^verbatim>\<open>return True\<close>.\<close>

definition BatteryPercentage_available :: "CapabilityId set \<Rightarrow> bool" where
  "BatteryPercentage_available caps = True"

fun available :: "sensor \<Rightarrow> CapabilityId set \<Rightarrow> bool" where
  "available BatteryPercentage caps = BatteryPercentage_available caps"
| "available s caps = MySkodaEntity_available (required_capabilities s) caps"

definition is_ChargingSensor :: "sensor \<Rightarrow> bool" where
  "is_ChargingSensor s =
     (s \<in> {BatteryPercentage, ChargingPower, RemainingDistance, TargetBatteryPercentage,
           ChargeType, ChargingState, RemainingChargingTime})"

section \<open>The config flow\<close>

text \<open>
  A Python dictionary with string keys and values is an association list; \<open>map_of\<close>
  looks a key up and a missing key raises \<^verbatim>\<open>KeyError\<close>. The call
  \<^verbatim>\<open>hub.connect(email, password)\<close> of the client library is a parameter \<open>connect\<close>,
  which returns or raises. \<open>CannotConnect\<close> and \<open>AuthorizationFailedError\<close> stand for
  the instances of these classes, and an \<^verbatim>\<open>except\<close> clause is the test for its class.
\<close>

type_synonym dict = "(string \<times> string) list"

definition CONF_USERNAME :: string where
  "CONF_USERNAME = ''username''"

definition CONF_PASSWORD :: string where
  "CONF_PASSWORD = ''password''"

record ConfigEntry =
  entry_id :: string
  entry_data :: dict

text \<open>
  What a step hands back to the host: a form (step id, \<^verbatim>\<open>errors\<close>,
  \<^verbatim>\<open>description_placeholders\<close>; \<open>None\<close> for an argument not passed), the creation of an
  entry (title, data), or the update of an existing entry with new data followed by its
  reload and the end of the flow.
\<close>

datatype FlowResult =
    ShowForm string "dict option" "dict option"
  | CreateEntry string dict
  | UpdateReloadAndAbort ConfigEntry dict

definition validate_input :: "(string \<Rightarrow> string \<Rightarrow> exn + unit) \<Rightarrow> dict \<Rightarrow> exn + unit" where
  "validate_input connect data =
     (case map_of data ''email'' of
        None \<Rightarrow> Inl KeyError
      | Some email \<Rightarrow>
          (case map_of data ''password'' of
             None \<Rightarrow> Inl KeyError
           | Some password \<Rightarrow> connect email password))"

text \<open>
  The \<^verbatim>\<open>try\<close> statement shared by both steps: the handlers in the order of the
  source, giving the lines logged and either the \<^verbatim>\<open>errors\<close> dictionary, or \<open>None\<close> when
  the \<^verbatim>\<open>else\<close> branch is to run, or the exception that no handler catches.
\<close>

definition try_validate ::
  "(string \<Rightarrow> string \<Rightarrow> exn + unit) \<Rightarrow> dict \<Rightarrow> string list \<times> (exn + dict option)" where
  "try_validate connect user_input =
     (case validate_input connect user_input of
        Inr u \<Rightarrow> ([], Inr None)
      | Inl e \<Rightarrow>
          if e = CannotConnect then ([], Inr (Some [(''base'', ''cannot_connect'')]))
          else if e = AuthorizationFailedError then ([], Inr (Some [(''base'', ''invalid_auth'')]))
          else if isinstance_Exception e
            then ([''Unexpected exception''], Inr (Some [(''base'', ''unknown'')]))
          else ([], Inl e))"

text \<open>A step returns the lines logged and its result; falling off the end returns \<open>None\<close>.\<close>

definition async_step_user ::
  "(string \<Rightarrow> string \<Rightarrow> exn + unit) \<Rightarrow> dict option \<Rightarrow> string list \<times> (exn + FlowResult option)"
  where
  "async_step_user connect user_input =
     (case user_input of
        None \<Rightarrow> ([], Inr (Some (ShowForm ''user'' None None)))
      | Some ui \<Rightarrow>
          (case try_validate connect ui of
             (logged, Inl e) \<Rightarrow> (logged, Inl e)
           | (logged, Inr None) \<Rightarrow>
               (case map_of ui ''email'' of
                  None \<Rightarrow> (logged, Inl KeyError)
                | Some title \<Rightarrow> (logged, Inr (Some (CreateEntry title ui))))
           | (logged, Inr (Some errors)) \<Rightarrow>
               (logged, Inr (Some (ShowForm ''user'' (Some errors) None)))))"

text \<open>
  The flow object. \<open>private_reauth_entry\<close> is \<^verbatim>\<open>self._reauth_entry\<close>, which
  \<^verbatim>\<open>__init__\<close> sets to \<^verbatim>\<open>None\<close>. \<open>private_data\<close> is \<^verbatim>\<open>self._data\<close> and \<open>reauth_entry\<close> is
  \<^verbatim>\<open>self.reauth_entry\<close>: the class assigns neither, so each is \<open>None\<close> when the
  object has no such attribute (reading it raises \<^verbatim>\<open>AttributeError\<close>) and \<open>Some\<close> when
  the base class of the host provides it.
\<close>

record ConfigFlow =
  private_reauth_entry :: "ConfigEntry option"
  private_data :: "dict option"
  reauth_entry :: "ConfigEntry option"

definition ConfigFlow_init :: ConfigFlow where
  "ConfigFlow_init =
     \<lparr>private_reauth_entry = None, private_data = None, reauth_entry = None\<rparr>"

definition dict_set :: "dict \<Rightarrow> string \<Rightarrow> string \<Rightarrow> dict" where
  "dict_set d k x = (if k \<in> fst ` set d then map (\<lambda>(k', x'). if k' = k then (k', x) else (k', x')) d
                     else d @ [(k, x)])"

definition ConfigFlow_async_step_reauth_confirm ::
  "(string \<Rightarrow> string \<Rightarrow> exn + unit) \<Rightarrow> ConfigFlow \<Rightarrow> dict option \<Rightarrow>
     ConfigFlow \<times> string list \<times> (exn + FlowResult option)" where
  "ConfigFlow_async_step_reauth_confirm connect self user_input =
     (case private_reauth_entry self of
        None \<Rightarrow> (self, [], Inl AssertionError)
      | Some entry \<Rightarrow>
          (case user_input of
             None \<Rightarrow>
               (case private_data self of
                  None \<Rightarrow> (self, [], Inl AttributeError)
                | Some d \<Rightarrow>
                    (case map_of d CONF_USERNAME of
                       None \<Rightarrow> (self, [], Inl KeyError)
                     | Some name \<Rightarrow>
                         (self, [],
                          Inr (Some (ShowForm ''reauth_confirm'' None
                                       (Some [(CONF_USERNAME, name)]))))))
           | Some ui \<Rightarrow>
               (case map_of ui CONF_PASSWORD of
                  None \<Rightarrow> (self, [], Inl KeyError)
                | Some password \<Rightarrow>
                    (case private_data self of
                       None \<Rightarrow> (self, [], Inl AttributeError)
                     | Some d \<Rightarrow>
                         (let self' = self\<lparr>private_data := Some (dict_set d CONF_PASSWORD password)\<rparr>
                          in case try_validate connect ui of
                               (logged, Inl e) \<Rightarrow> (self', logged, Inl e)
                             | (logged, Inr None) \<Rightarrow>
                                 (case reauth_entry self' of
                                    None \<Rightarrow> (self', logged, Inl AttributeError)
                                  | Some target \<Rightarrow>
                                      (self', logged, Inr (Some (UpdateReloadAndAbort target ui))))
                             | (logged, Inr (Some errors)) \<Rightarrow> (self', logged, Inr None))))))"

text \<open>
  \<^verbatim>\<open>async_step_reauth\<close> looks the entry up in the host's registry (\<open>async_get_entry\<close>,
  a parameter) under the id in the flow's context and enters the confirm step with no
  input.
\<close>

definition async_step_reauth ::
  "(string \<Rightarrow> string \<Rightarrow> exn + unit) \<Rightarrow> (string \<Rightarrow> ConfigEntry option) \<Rightarrow> dict \<Rightarrow> ConfigFlow \<Rightarrow>
     ConfigFlow \<times> string list \<times> (exn + FlowResult option)" where
  "async_step_reauth connect async_get_entry flow_context self =
     (case map_of flow_context ''entry_id'' of
        None \<Rightarrow> (self, [], Inl KeyError)
      | Some eid \<Rightarrow>
          ConfigFlow_async_step_reauth_confirm connect
            (self\<lparr>private_reauth_entry := async_get_entry eid\<rparr>) None)"

section \<open>Example snapshots and backends\<close>

definition example_status ::
  "int \<Rightarrow> int \<Rightarrow> ChargeTypeEnum option \<Rightarrow> ChargingStateEnum option \<Rightarrow> ChargingStatus" where
  "example_status p r t s =
     \<lparr>battery = \<lparr>state_of_charge_in_percent = p, remaining_cruising_range_in_meters = r\<rparr>,
      charge_power_in_kw = 11, charge_type = t, state = s,
      remaining_time_to_fully_charged_in_minutes = 30\<rparr>"

definition example_charging :: "ChargingStatus option \<Rightarrow> Charging" where
  "example_charging st =
     \<lparr>charging_status = st, settings = \<lparr>target_state_of_charge_in_percent = 80\<rparr>\<rparr>"

definition example_vehicle :: "Charging option \<Rightarrow> Vehicle" where
  "example_vehicle c =
     \<lparr>info = None, charging = c, health = None, maintenance = None, status = None\<rparr>"

definition empty_vehicle :: Vehicle where
  "empty_vehicle =
     \<lparr>info = None, charging = None, health = None, maintenance = None, status = None\<rparr>"

definition bare_vehicle :: Vehicle where
  "bare_vehicle =
     \<lparr>info = Some \<lparr>software_version = ''5.4''\<rparr>, charging = None, health = None,
      maintenance = Some \<lparr>maintenance_report = None\<rparr>, status = None\<rparr>"

definition no_renders :: "Vehicle \<Rightarrow> exn + (string \<rightharpoonup> string)" where
  "no_renders v = Inr Map.empty"

text \<open>A backend whose \<^verbatim>\<open>connect\<close> call has the outcome \<open>r\<close> whatever the credentials.\<close>

definition connect_returning :: "exn + unit \<Rightarrow> string \<Rightarrow> string \<Rightarrow> exn + unit" where
  "connect_returning r email password = r"

definition example_input :: dict where
  "example_input = [(''email'', ''a@b.c''), (''password'', ''secret'')]"

definition example_entry :: ConfigEntry where
  "example_entry =
     \<lparr>entry_id = ''e1'', entry_data = [(''email'', ''a@b.c''), (''password'', ''old'')]\<rparr>"

section \<open>Absent charging data\<close>

lemma ChargingSensor_status_eq:
  "ChargingSensor_status v = (case charging v of None \<Rightarrow> None | Some c \<Rightarrow> charging_status c)"
  by (simp add: ChargingSensor_status_def ChargingSensor_charging_def split: option.splits)

lemma ChargingSensor_charging_eq: "ChargingSensor_charging v = charging v"
  by (simp add: ChargingSensor_charging_def split: option.splits)

text \<open>
  Claim C4. When the battery percentage cannot be reached, because the snapshot has no
  charging record or the charging record has no status, \<^verbatim>\<open>BatteryPercentage\<close> has no
  native value and its icon is the outline battery.
\<close>

theorem BatteryPercentage_absent:
  "charging v = None \<or> (\<exists>c. charging v = Some c \<and> charging_status c = None) \<Longrightarrow>
   BatteryPercentage_native_value v = Inr None \<and>
   BatteryPercentage_icon v = ''mdi:battery-outline''"
  by (auto simp: BatteryPercentage_native_value_def BatteryPercentage_icon_def
      ChargingSensor_status_eq)

theorem BatteryPercentage_absent_witness:
  "charging empty_vehicle = None
   \<and> BatteryPercentage_native_value empty_vehicle = Inr None
   \<and> BatteryPercentage_icon empty_vehicle = ''mdi:battery-outline''
   \<and> charging (example_vehicle (Some (example_charging None))) = Some (example_charging None)
   \<and> charging_status (example_charging None) = None
   \<and> BatteryPercentage_native_value (example_vehicle (Some (example_charging None))) = Inr None
   \<and> BatteryPercentage_icon (example_vehicle (Some (example_charging None))) =
        ''mdi:battery-outline''"
  using BatteryPercentage_absent [of empty_vehicle]
        BatteryPercentage_absent [of "example_vehicle (Some (example_charging None))"]
  by (simp add: empty_vehicle_def example_vehicle_def example_charging_def)

section \<open>The battery icon\<close>

lemma div_band: "10 * k - 5 \<le> p \<Longrightarrow> p < 10 * k + 5 \<Longrightarrow> (p + 5) div 10 = (k::int)"
  by (rule int_div_pos_eq [where r = "p + 5 - 10 * k"]) simp_all

lemma icon_suffix_ten_point_bucket: "BatteryPercentage_icon_suffix p = ten_point_bucket p"
proof -
  have "5 \<le> p \<Longrightarrow> p < 95 \<Longrightarrow> (p + 5) div 10 =
     (if 85 \<le> p then 9 else if 75 \<le> p then 8 else if 65 \<le> p then 7
      else if 55 \<le> p then 6 else if 45 \<le> p then 5 else if 35 \<le> p then 4
      else if 25 \<le> p then 3 else if 15 \<le> p then 2 else 1)"
    using div_band [of 9 p] div_band [of 8 p] div_band [of 7 p] div_band [of 6 p]
          div_band [of 5 p] div_band [of 4 p] div_band [of 3 p] div_band [of 2 p]
          div_band [of 1 p]
    by simp
  then show ?thesis
    by (simp add: BatteryPercentage_icon_suffix_def ten_point_bucket_def digit_char_def)
qed

text \<open>
  Claim C3. With a charging status present, the icon of \<^verbatim>\<open>BatteryPercentage\<close> is the
  ten-point bucket of the percentage found by the descending threshold checks: 95 falls
  into bucket "100", 94 into "90" and 4 into "outline". The icon carries the charging
  overlay when the state is not \<^verbatim>\<open>CONNECT_CABLE\<close>; otherwise it is the static battery
  icon, and the static icon of bucket "100" is the plain \<^verbatim>\<open>mdi:battery\<close>.
\<close>

theorem BatteryPercentage_icon_banding:
  "charging v = Some c \<Longrightarrow> charging_status c = Some st \<Longrightarrow>
   BatteryPercentage_icon v =
     (let b = ten_point_bucket (state_of_charge_in_percent (battery st))
      in if state st \<noteq> Some CONNECT_CABLE then ''mdi:battery-charging-'' @ b
         else if b = ''100'' then ''mdi:battery''
         else ''mdi:battery-'' @ b)
   \<and> (state_of_charge_in_percent (battery st) = 95 \<longrightarrow>
        BatteryPercentage_icon v =
          (if state st \<noteq> Some CONNECT_CABLE then ''mdi:battery-charging-100''
           else ''mdi:battery''))
   \<and> (state_of_charge_in_percent (battery st) = 94 \<longrightarrow>
        BatteryPercentage_icon v =
          (if state st \<noteq> Some CONNECT_CABLE then ''mdi:battery-charging-90''
           else ''mdi:battery-90''))
   \<and> (state_of_charge_in_percent (battery st) = 4 \<longrightarrow>
        BatteryPercentage_icon v =
          (if state st \<noteq> Some CONNECT_CABLE then ''mdi:battery-charging-outline''
           else ''mdi:battery-outline''))"
proof -
  assume "charging v = Some c" and "charging_status c = Some st"
  then have st: "ChargingSensor_status v = Some st"
    by (simp add: ChargingSensor_status_eq)
  have general: "BatteryPercentage_icon v =
     (let b = ten_point_bucket (state_of_charge_in_percent (battery st))
      in if state st \<noteq> Some CONNECT_CABLE then ''mdi:battery-charging-'' @ b
         else if b = ''100'' then ''mdi:battery''
         else ''mdi:battery-'' @ b)"
    by (simp add: BatteryPercentage_icon_def st icon_suffix_ten_point_bucket Let_def)
  have at95: "state_of_charge_in_percent (battery st) = 95 \<longrightarrow>
        BatteryPercentage_icon v =
          (if state st \<noteq> Some CONNECT_CABLE then ''mdi:battery-charging-100''
           else ''mdi:battery'')"
    by (simp add: BatteryPercentage_icon_def st BatteryPercentage_icon_suffix_def Let_def)
  have at94: "state_of_charge_in_percent (battery st) = 94 \<longrightarrow>
        BatteryPercentage_icon v =
          (if state st \<noteq> Some CONNECT_CABLE then ''mdi:battery-charging-90''
           else ''mdi:battery-90'')"
    by (simp add: BatteryPercentage_icon_def st BatteryPercentage_icon_suffix_def Let_def)
  have at4: "state_of_charge_in_percent (battery st) = 4 \<longrightarrow>
        BatteryPercentage_icon v =
          (if state st \<noteq> Some CONNECT_CABLE then ''mdi:battery-charging-outline''
           else ''mdi:battery-outline'')"
    by (simp add: BatteryPercentage_icon_def st BatteryPercentage_icon_suffix_def Let_def)
  from general at95 at94 at4 show ?thesis
    by blast
qed

theorem BatteryPercentage_icon_banding_witness:
  "BatteryPercentage_icon
     (example_vehicle (Some (example_charging (Some (example_status 95 0 None (Some CONNECT_CABLE))))))
     = ''mdi:battery''
   \<and> BatteryPercentage_icon
     (example_vehicle (Some (example_charging (Some (example_status 94 0 None (Some CHARGING_ACTIVE))))))
     = ''mdi:battery-charging-90''
   \<and> BatteryPercentage_icon
     (example_vehicle (Some (example_charging (Some (example_status 4 0 None None)))))
     = ''mdi:battery-charging-outline''"
  using BatteryPercentage_icon_banding
          [of "example_vehicle (Some (example_charging (Some (example_status 95 0 None (Some CONNECT_CABLE)))))"
              "example_charging (Some (example_status 95 0 None (Some CONNECT_CABLE)))"
              "example_status 95 0 None (Some CONNECT_CABLE)"]
        BatteryPercentage_icon_banding
          [of "example_vehicle (Some (example_charging (Some (example_status 94 0 None (Some CHARGING_ACTIVE)))))"
              "example_charging (Some (example_status 94 0 None (Some CHARGING_ACTIVE)))"
              "example_status 94 0 None (Some CHARGING_ACTIVE)"]
        BatteryPercentage_icon_banding
          [of "example_vehicle (Some (example_charging (Some (example_status 4 0 None None))))"
              "example_charging (Some (example_status 4 0 None None))"
              "example_status 4 0 None None"]
  by (simp add: example_status_def example_charging_def example_vehicle_def
      ten_point_bucket_def digit_char_def Let_def)

section \<open>Icons are always icon references\<close>

text \<open>
  Claim C9. None of the three dynamic icon functions reads an attribute that can be
  missing without a guard, so each returns a string for every snapshot; the string
  starts with \<^verbatim>\<open>mdi:\<close> and names an icon. When the charging data is absent, that is
  when \<^verbatim>\<open>_status()\<close> is \<^verbatim>\<open>None\<close> because the snapshot has no charging record or the
  charging record has no status, the icons are the neutral ones: the outline battery,
  the type-2 plug and the plain power plug.
\<close>

theorem icons_valid:
  "take 4 (BatteryPercentage_icon v) = ''mdi:'' \<and> 4 < length (BatteryPercentage_icon v)
   \<and> take 4 (ChargeType_icon v) = ''mdi:'' \<and> 4 < length (ChargeType_icon v)
   \<and> take 4 (ChargingState_icon v) = ''mdi:'' \<and> 4 < length (ChargingState_icon v)
   \<and> (ChargingSensor_status v = None \<longleftrightarrow>
         charging v = None \<or> (\<exists>c. charging v = Some c \<and> charging_status c = None))
   \<and> (ChargingSensor_status v = None \<longrightarrow>
         BatteryPercentage_icon v = ''mdi:battery-outline''
         \<and> ChargeType_icon v = ''mdi:ev-plug-type2''
         \<and> ChargingState_icon v = ''mdi:power-plug'')"
proof -
  have prefixes:
    "take 4 (BatteryPercentage_icon v) = ''mdi:'' \<and> 4 < length (BatteryPercentage_icon v)
     \<and> take 4 (ChargeType_icon v) = ''mdi:'' \<and> 4 < length (ChargeType_icon v)
     \<and> take 4 (ChargingState_icon v) = ''mdi:'' \<and> 4 < length (ChargingState_icon v)"
    by (simp add: BatteryPercentage_icon_def ChargeType_icon_def ChargingState_icon_def
        Let_def split: option.splits)
  have absent: "ChargingSensor_status v = None \<longleftrightarrow>
      charging v = None \<or> (\<exists>c. charging v = Some c \<and> charging_status c = None)"
    by (auto simp: ChargingSensor_status_eq split: option.splits)
  have fallback: "ChargingSensor_status v = None \<longrightarrow>
      BatteryPercentage_icon v = ''mdi:battery-outline''
      \<and> ChargeType_icon v = ''mdi:ev-plug-type2''
      \<and> ChargingState_icon v = ''mdi:power-plug''"
    by (simp add: BatteryPercentage_icon_def ChargeType_icon_def ChargingState_icon_def)
  from prefixes absent fallback show ?thesis
    by blast
qed

theorem icons_valid_witness:
  "ChargingSensor_status empty_vehicle = None
   \<and> charging empty_vehicle = None
   \<and> BatteryPercentage_icon empty_vehicle = ''mdi:battery-outline''
   \<and> ChargeType_icon empty_vehicle = ''mdi:ev-plug-type2''
   \<and> ChargingState_icon empty_vehicle = ''mdi:power-plug''
   \<and> ChargingSensor_status (example_vehicle (Some (example_charging None))) = None
   \<and> charging (example_vehicle (Some (example_charging None))) = Some (example_charging None)
   \<and> charging_status (example_charging None) = None
   \<and> BatteryPercentage_icon (example_vehicle (Some (example_charging None))) =
        ''mdi:battery-outline''
   \<and> ChargeType_icon (example_vehicle (Some (example_charging None))) = ''mdi:ev-plug-type2''
   \<and> ChargingState_icon (example_vehicle (Some (example_charging None))) = ''mdi:power-plug''"
proof -
  have a: "charging empty_vehicle = None"
    by (simp add: empty_vehicle_def)
  have b: "charging (example_vehicle (Some (example_charging None))) = Some (example_charging None)"
    by (simp add: example_vehicle_def)
  have c: "charging_status (example_charging None) = None"
    by (simp add: example_charging_def)
  from a icons_valid [of empty_vehicle]
  have first: "ChargingSensor_status empty_vehicle = None
      \<and> BatteryPercentage_icon empty_vehicle = ''mdi:battery-outline''
      \<and> ChargeType_icon empty_vehicle = ''mdi:ev-plug-type2''
      \<and> ChargingState_icon empty_vehicle = ''mdi:power-plug''"
    by blast
  from b c icons_valid [of "example_vehicle (Some (example_charging None))"]
  have second: "ChargingSensor_status (example_vehicle (Some (example_charging None))) = None
      \<and> BatteryPercentage_icon (example_vehicle (Some (example_charging None))) =
           ''mdi:battery-outline''
      \<and> ChargeType_icon (example_vehicle (Some (example_charging None))) = ''mdi:ev-plug-type2''
      \<and> ChargingState_icon (example_vehicle (Some (example_charging None))) = ''mdi:power-plug''"
    by blast
  from a b c first second show ?thesis
    by blast
qed

section \<open>Availability\<close>

text \<open>
  Claim C10. \<^verbatim>\<open>BatteryPercentage.available\<close> is true for every capability set, although
  the class still declares \<^verbatim>\<open>CHARGING\<close> as required: the override takes the sensor out
  of the capability check.
\<close>

theorem BatteryPercentage_available_always:
  "available BatteryPercentage caps \<and> CHARGING \<in> set (required_capabilities BatteryPercentage)"
  by (simp add: BatteryPercentage_available_def ChargingSensor_required_capabilities_def)

text \<open>
  Claim C2, as stated, fails for \<^verbatim>\<open>BatteryPercentage\<close>: with an empty capability set
  the sensor derives from \<^verbatim>\<open>ChargingSensor\<close> and is available.
\<close>

theorem ChargingSensor_gating_counterexample:
  "CHARGING \<notin> {} \<and> is_ChargingSensor BatteryPercentage \<and> available BatteryPercentage {}"
  by (simp add: is_ChargingSensor_def BatteryPercentage_available_def)

text \<open>
  Claim C2, amended. For a capability set without \<^verbatim>\<open>CHARGING\<close>, every sensor deriving
  from \<^verbatim>\<open>ChargingSensor\<close> other than \<^verbatim>\<open>BatteryPercentage\<close> (that is \<^verbatim>\<open>ChargingPower\<close>,
  \<^verbatim>\<open>RemainingDistance\<close>, \<^verbatim>\<open>TargetBatteryPercentage\<close>, \<^verbatim>\<open>ChargeType\<close>, \<^verbatim>\<open>ChargingState\<close>
  and \<^verbatim>\<open>RemainingChargingTime\<close>) is unavailable, whatever the snapshot holds.
\<close>

theorem ChargingSensor_gating:
  "CHARGING \<notin> caps \<Longrightarrow> is_ChargingSensor s \<Longrightarrow> s \<noteq> BatteryPercentage \<Longrightarrow>
   \<not> available s caps"
  by (auto simp: is_ChargingSensor_def MySkodaEntity_available_def
      ChargingSensor_required_capabilities_def)

theorem ChargingSensor_gating_witness:
  "CHARGING \<notin> {STATE, VEHICLE_HEALTH_INSPECTION} \<and> is_ChargingSensor ChargingPower
   \<and> ChargingPower \<noteq> BatteryPercentage
   \<and> \<not> available ChargingPower {STATE, VEHICLE_HEALTH_INSPECTION}"
  using ChargingSensor_gating [of "{STATE, VEHICLE_HEALTH_INSPECTION}" ChargingPower]
  by (simp add: is_ChargingSensor_def)

section \<open>The charging state\<close>

lemma lower_states:
  "lower ''CONNECT_CABLE'' = ''connect_cable''"
  "lower ''READY_FOR_CHARGING'' = ''ready_for_charging''"
  "lower ''CONSERVING'' = ''conserving''"
  "lower ''CHARGING'' = ''charging''"
  by code_simp+

text \<open>
  Claim C8. When the charging status carries one of the four states, the native value
  of \<^verbatim>\<open>ChargingState\<close> is the lower-case string of the state, which is one of the
  options of the sensor; the icon is the unplugged one for \<^verbatim>\<open>CONNECT_CABLE\<close>, the
  charging one for \<^verbatim>\<open>CHARGING\<close> and the default one for the other two.
\<close>

theorem ChargingState_value_and_icon:
  "charging v = Some c \<Longrightarrow> charging_status c = Some st \<Longrightarrow> state st = Some s \<Longrightarrow>
   ChargingState_native_value v = Inr (Some (VStr (lower (str_ChargingState (Some s)))))
   \<and> lower (str_ChargingState (Some s)) =
        (case s of CONNECT_CABLE \<Rightarrow> ''connect_cable''
         | READY_FOR_CHARGING \<Rightarrow> ''ready_for_charging''
         | CONSERVING \<Rightarrow> ''conserving''
         | CHARGING_ACTIVE \<Rightarrow> ''charging'')
   \<and> lower (str_ChargingState (Some s)) \<in> set ChargingState_attr_options
   \<and> ChargingState_icon v =
        (case s of CONNECT_CABLE \<Rightarrow> ''mdi:power-plug-off''
         | CHARGING_ACTIVE \<Rightarrow> ''mdi:power-plug-battery''
         | READY_FOR_CHARGING \<Rightarrow> ''mdi:power-plug''
         | CONSERVING \<Rightarrow> ''mdi:power-plug'')"
  by (cases s) (simp_all add: ChargingState_native_value_def ChargingState_icon_def
      ChargingSensor_status_eq lower_states ChargingState_attr_options_def)

theorem ChargingState_value_and_icon_witness:
  "ChargingState_native_value
     (example_vehicle (Some (example_charging (Some (example_status 50 0 None (Some READY_FOR_CHARGING))))))
     = Inr (Some (VStr ''ready_for_charging''))
   \<and> ChargingState_icon
     (example_vehicle (Some (example_charging (Some (example_status 50 0 None (Some READY_FOR_CHARGING))))))
     = ''mdi:power-plug''"
  using ChargingState_value_and_icon
          [of "example_vehicle (Some (example_charging (Some (example_status 50 0 None (Some READY_FOR_CHARGING)))))"
              "example_charging (Some (example_status 50 0 None (Some READY_FOR_CHARGING)))"
              "example_status 50 0 None (Some READY_FOR_CHARGING)" READY_FOR_CHARGING]
  by (simp add: example_status_def example_charging_def example_vehicle_def)

section \<open>Absent sub-records\<close>

text \<open>
  Claim C1, as stated, fails for the two sensors it names: with no info record
  \<^verbatim>\<open>SoftwareVersion.native_value\<close> raises \<^verbatim>\<open>AttributeError\<close>, and with no maintenance
  record so does \<^verbatim>\<open>InspectionInterval.native_value\<close>.
\<close>

theorem native_value_absent_counterexample:
  "info empty_vehicle = None
   \<and> SoftwareVersion_native_value empty_vehicle = Inl AttributeError
   \<and> maintenance empty_vehicle = None
   \<and> InspectionInterval_native_value empty_vehicle = Inl AttributeError"
  by (simp add: empty_vehicle_def SoftwareVersion_native_value_def
      InspectionInterval_native_value_def)

text \<open>
  Claim C1, amended. A sensor returns no value, and does not raise, when the record
  its source guards is absent: the charging record or its status for
  \<^verbatim>\<open>BatteryPercentage\<close>, \<^verbatim>\<open>ChargingPower\<close>, \<^verbatim>\<open>RemainingDistance\<close>, \<^verbatim>\<open>ChargeType\<close>,
  \<^verbatim>\<open>ChargingState\<close> and \<^verbatim>\<open>RemainingChargingTime\<close>; the charging record for
  \<^verbatim>\<open>TargetBatteryPercentage\<close>; the health record for \<^verbatim>\<open>Mileage\<close>; the status record
  for \<^verbatim>\<open>LastUpdated\<close>; the maintenance report of a present maintenance record for
  \<^verbatim>\<open>InspectionInterval\<close>; the entry "main" of the renders for \<^verbatim>\<open>MainRender\<close>.
  \<^verbatim>\<open>SoftwareVersion\<close> returns the software version of a present info record.
\<close>

theorem native_value_absent_guarded:
  "(charging v = None \<or> (\<exists>c. charging v = Some c \<and> charging_status c = None) \<longrightarrow>
      (\<forall>s \<in> {BatteryPercentage, ChargingPower, RemainingDistance, ChargeType, ChargingState,
              RemainingChargingTime}. native_value g s v = Inr None))
   \<and> (charging v = None \<longrightarrow> native_value g TargetBatteryPercentage v = Inr None)
   \<and> (health v = None \<longrightarrow> native_value g Mileage v = Inr None)
   \<and> (status v = None \<longrightarrow> native_value g LastUpdated v = Inr None)
   \<and> (\<forall>m. maintenance v = Some m \<and> maintenance_report m = None \<longrightarrow>
          native_value g InspectionInterval v = Inr None)
   \<and> (\<forall>i. info v = Some i \<longrightarrow>
          native_value g SoftwareVersion v = Inr (Some (VStr (software_version i))))
   \<and> (\<forall>d. g v = Inr d \<and> d ''main'' = None \<longrightarrow> native_value g MainRender v = Inr None)"
  by (auto simp: BatteryPercentage_native_value_def ChargingPower_native_value_def
      RemainingDistance_native_value_def ChargeType_native_value_def
      ChargingState_native_value_def RemainingChargingTime_native_value_def
      TargetBatteryPercentage_native_value_def Mileage_native_value_def
      LastUpdated_native_value_def InspectionInterval_native_value_def
      SoftwareVersion_native_value_def MainRender_native_value_def
      ChargingSensor_status_eq ChargingSensor_charging_eq)

theorem native_value_absent_guarded_witness:
  "charging bare_vehicle = None \<and> health bare_vehicle = None \<and> status bare_vehicle = None
   \<and> maintenance bare_vehicle = Some \<lparr>maintenance_report = None\<rparr>
   \<and> info bare_vehicle = Some \<lparr>software_version = ''5.4''\<rparr>
   \<and> no_renders bare_vehicle = Inr Map.empty
   \<and> native_value no_renders BatteryPercentage bare_vehicle = Inr None
   \<and> native_value no_renders ChargingPower bare_vehicle = Inr None
   \<and> native_value no_renders RemainingDistance bare_vehicle = Inr None
   \<and> native_value no_renders ChargeType bare_vehicle = Inr None
   \<and> native_value no_renders ChargingState bare_vehicle = Inr None
   \<and> native_value no_renders RemainingChargingTime bare_vehicle = Inr None
   \<and> native_value no_renders TargetBatteryPercentage bare_vehicle = Inr None
   \<and> native_value no_renders Mileage bare_vehicle = Inr None
   \<and> native_value no_renders LastUpdated bare_vehicle = Inr None
   \<and> native_value no_renders InspectionInterval bare_vehicle = Inr None
   \<and> native_value no_renders SoftwareVersion bare_vehicle = Inr (Some (VStr ''5.4''))
   \<and> native_value no_renders MainRender bare_vehicle = Inr None"
  using native_value_absent_guarded [of bare_vehicle no_renders]
  by (simp add: bare_vehicle_def no_renders_def)

section \<open>Credential validation\<close>

text \<open>A condition that is not an \<^verbatim>\<open>Exception\<close>, such as a cancellation, passes through.\<close>

lemma async_step_user_propagates:
  "map_of ui ''email'' = Some e \<Longrightarrow> map_of ui ''password'' = Some p \<Longrightarrow>
   connect e p = Inl (NonException n) \<Longrightarrow>
   async_step_user connect (Some ui) = ([], Inl (NonException n))"
  by (simp add: async_step_user_def try_validate_def validate_input_def)

text \<open>
  Claim C5. When the user step reaches the \<^verbatim>\<open>connect\<close> call, its outcome decides the
  result: \<^verbatim>\<open>CannotConnect\<close> gives the form with error \<^verbatim>\<open>cannot_connect\<close>;
  \<^verbatim>\<open>AuthorizationFailedError\<close> gives the form with \<^verbatim>\<open>invalid_auth\<close>, not
  \<^verbatim>\<open>cannot_connect\<close>; any other instance of \<^verbatim>\<open>Exception\<close> is logged and gives
  \<^verbatim>\<open>unknown\<close>; a normal return creates the entry, titled with the e-mail address.
\<close>

theorem async_step_user_classification:
  "map_of ui ''email'' = Some e \<Longrightarrow> map_of ui ''password'' = Some p \<Longrightarrow>
   (connect e p = Inl CannotConnect \<longrightarrow>
      async_step_user connect (Some ui) =
        ([], Inr (Some (ShowForm ''user'' (Some [(''base'', ''cannot_connect'')]) None))))
   \<and> (connect e p = Inl AuthorizationFailedError \<longrightarrow>
      async_step_user connect (Some ui) =
        ([], Inr (Some (ShowForm ''user'' (Some [(''base'', ''invalid_auth'')]) None)))
      \<and> async_step_user connect (Some ui) \<noteq>
        ([], Inr (Some (ShowForm ''user'' (Some [(''base'', ''cannot_connect'')]) None))))
   \<and> (\<forall>x. connect e p = Inl x \<and> isinstance_Exception x \<and> x \<noteq> CannotConnect
          \<and> x \<noteq> AuthorizationFailedError \<longrightarrow>
      async_step_user connect (Some ui) =
        ([''Unexpected exception''],
         Inr (Some (ShowForm ''user'' (Some [(''base'', ''unknown'')]) None))))
   \<and> (connect e p = Inr () \<longrightarrow>
      async_step_user connect (Some ui) = ([], Inr (Some (CreateEntry e ui))))"
  by (simp add: async_step_user_def try_validate_def validate_input_def)

theorem async_step_user_classification_witness:
  "map_of example_input ''email'' = Some ''a@b.c''
   \<and> map_of example_input ''password'' = Some ''secret''
   \<and> async_step_user (connect_returning (Inl CannotConnect)) (Some example_input) =
        ([], Inr (Some (ShowForm ''user'' (Some [(''base'', ''cannot_connect'')]) None)))
   \<and> async_step_user (connect_returning (Inl AuthorizationFailedError)) (Some example_input) =
        ([], Inr (Some (ShowForm ''user'' (Some [(''base'', ''invalid_auth'')]) None)))
   \<and> async_step_user (connect_returning (Inl (OtherException ''ClientError'')))
        (Some example_input) =
        ([''Unexpected exception''],
         Inr (Some (ShowForm ''user'' (Some [(''base'', ''unknown'')]) None)))
   \<and> async_step_user (connect_returning (Inr ())) (Some example_input) =
        ([], Inr (Some (CreateEntry ''a@b.c'' example_input)))"
  using async_step_user_classification
          [of example_input "''a@b.c''" "''secret''" "connect_returning (Inl CannotConnect)"]
        async_step_user_classification
          [of example_input "''a@b.c''" "''secret''"
              "connect_returning (Inl AuthorizationFailedError)"]
        async_step_user_classification
          [of example_input "''a@b.c''" "''secret''"
              "connect_returning (Inl (OtherException ''ClientError''))"]
        async_step_user_classification
          [of example_input "''a@b.c''" "''secret''" "connect_returning (Inr ())"]
  by (simp add: example_input_def connect_returning_def)

section \<open>Re-authentication\<close>

lemma reauth_confirm_submission_never_shows_form:
  "snd (snd (ConfigFlow_async_step_reauth_confirm connect self (Some ui)))
     \<noteq> Inr (Some (ShowForm step errors placeholders))"
  by (simp add: ConfigFlow_async_step_reauth_confirm_def Let_def
      split: option.splits prod.splits sum.splits)

lemma reauth_confirm_missing_attributes:
  "private_reauth_entry self = Some entry \<Longrightarrow> private_data self = None \<Longrightarrow>
   map_of ui ''password'' = Some p \<Longrightarrow>
   ConfigFlow_async_step_reauth_confirm connect self (Some ui) = (self, [], Inl AttributeError)"
  by (simp add: ConfigFlow_async_step_reauth_confirm_def CONF_PASSWORD_def)

text \<open>
  On a flow object that does have both attributes, a successful validation asks the
  host to update the entry held in \<^verbatim>\<open>self.reauth_entry\<close> and to reload it; no entry is
  created.
\<close>

lemma reauth_confirm_success_updates_entry:
  "private_reauth_entry self = Some entry \<Longrightarrow> private_data self = Some d \<Longrightarrow>
   reauth_entry self = Some target \<Longrightarrow> map_of ui ''email'' = Some e \<Longrightarrow>
   map_of ui ''password'' = Some p \<Longrightarrow> connect e p = Inr () \<Longrightarrow>
   snd (snd (ConfigFlow_async_step_reauth_confirm connect self (Some ui))) =
     Inr (Some (UpdateReloadAndAbort target ui))"
  by (simp add: ConfigFlow_async_step_reauth_confirm_def CONF_PASSWORD_def try_validate_def
      validate_input_def Let_def)

text \<open>
  Claim C6 at a failing validation. The backend rejects the new password. Even on a
  flow object that has both attributes the class never assigns, the confirm step
  stores the password, records the error and returns \<^verbatim>\<open>None\<close>: no form is shown
  again. On the flow object as \<^verbatim>\<open>__init__\<close> and \<^verbatim>\<open>async_step_reauth\<close> leave it, the
  step raises \<^verbatim>\<open>AttributeError\<close>. The user step shows its form with
  \<^verbatim>\<open>invalid_auth\<close> on the same input.
\<close>

theorem reauth_confirm_failure_shows_no_form:
  "ConfigFlow_async_step_reauth_confirm (connect_returning (Inl AuthorizationFailedError))
     \<lparr>private_reauth_entry = Some example_entry,
      private_data = Some [(''username'', ''a@b.c'')],
      reauth_entry = Some example_entry\<rparr> (Some example_input)
   = (\<lparr>private_reauth_entry = Some example_entry,
       private_data = Some [(''username'', ''a@b.c''), (''password'', ''secret'')],
       reauth_entry = Some example_entry\<rparr>, [], Inr None)
   \<and> ConfigFlow_async_step_reauth_confirm (connect_returning (Inl AuthorizationFailedError))
        (ConfigFlow_init\<lparr>private_reauth_entry := Some example_entry\<rparr>) (Some example_input)
      = (ConfigFlow_init\<lparr>private_reauth_entry := Some example_entry\<rparr>, [], Inl AttributeError)
   \<and> async_step_user (connect_returning (Inl AuthorizationFailedError)) (Some example_input) =
        ([], Inr (Some (ShowForm ''user'' (Some [(''base'', ''invalid_auth'')]) None)))"
  by (simp add: ConfigFlow_async_step_reauth_confirm_def ConfigFlow_init_def example_input_def
      connect_returning_def CONF_PASSWORD_def CONF_USERNAME_def dict_set_def try_validate_def
      validate_input_def async_step_user_def)

section \<open>Rounding to the nearest float\<close>

lemma pow2_powi: "pow2 e = 2 powi e"
  by (simp add: pow2_def power_int_def inverse_eq_divide power_one_over)

lemma pow2_pos [simp]: "0 < pow2 e"
  by (simp add: pow2_powi)

lemma pow2_add: "pow2 (a + b) = pow2 a * pow2 b"
  by (simp add: pow2_powi power_int_add)

lemma pow2_diff: "pow2 (a - b) = pow2 a / pow2 b"
  by (simp add: pow2_powi power_int_diff)

lemma pow2_nonneg: "0 \<le> e \<Longrightarrow> pow2 e = 2 ^ nat e"
  by (simp add: pow2_def)

lemma pow2_strict_mono: "a < b \<Longrightarrow> pow2 a < pow2 b"
  by (simp add: pow2_powi power_int_strict_increasing)

lemma pow2_mono: "a \<le> b \<Longrightarrow> pow2 a \<le> pow2 b"
  by (simp add: pow2_powi power_int_increasing)

lemma pow2_less_iff: "pow2 a < pow2 b \<longleftrightarrow> a < b"
  by (meson linorder_not_less pow2_mono pow2_strict_mono)

lemma pow2_le_iff: "pow2 a \<le> pow2 b \<longleftrightarrow> a \<le> b"
  by (meson linorder_not_less pow2_mono pow2_strict_mono)

lemma pow2_plus1: "pow2 (e + 1) = 2 * pow2 e"
proof -
  have "pow2 1 = 2"
    by (simp add: pow2_def)
  then show ?thesis
    using pow2_add [of e 1] by simp
qed

lemma bitlen_rat_bounds:
  assumes "0 < a"
  shows "pow2 (bitlen a - 1) \<le> of_int a" and "of_int a < pow2 (bitlen a)"
proof -
  have l: "1 \<le> bitlen a"
    using assms bitlen_eq_zero_iff [of a] bitlen_nonneg [of a] by linarith
  from bitlen_bounds [OF assms]
  have lo: "2 ^ nat (bitlen a - 1) \<le> a" and hi: "a < 2 ^ nat (bitlen a)"
    by simp_all
  have "(of_int (2 ^ nat (bitlen a - 1)) :: rat) \<le> of_int a"
    using lo by (simp only: of_int_le_iff)
  then show "pow2 (bitlen a - 1) \<le> of_int a"
    using l by (simp add: pow2_nonneg)
  have "(of_int a :: rat) < of_int (2 ^ nat (bitlen a))"
    using hi by (simp only: of_int_less_iff)
  then show "of_int a < pow2 (bitlen a)"
    using l by (simp add: pow2_nonneg)
qed

lemma ilog2_bounds:
  assumes "0 < x"
  shows "pow2 (ilog2 x) \<le> x \<and> x < pow2 (ilog2 x + 1)"
proof -
  obtain a b where q: "quotient_of x = (a, b)"
    by force
  have b: "0 < b"
    using quotient_of_denom_pos [OF q] .
  have x: "x = of_int a / of_int b"
    using quotient_of_div [OF q] .
  have a: "0 < a"
    using assms b x by (simp add: zero_less_divide_iff)
  define e0 where "e0 = bitlen a - bitlen b"
  have "of_int a / of_int b < pow2 (bitlen a) / pow2 (bitlen b - 1)"
    using bitlen_rat_bounds(2) [OF a] bitlen_rat_bounds(1) [OF b] a
    by (intro frac_less) simp_all
  then have hi: "x < pow2 (e0 + 1)"
    by (simp add: x e0_def pow2_diff [symmetric] algebra_simps)
  have "pow2 (bitlen a - 1) / pow2 (bitlen b) < of_int a / of_int b"
    using bitlen_rat_bounds(1) [OF a] bitlen_rat_bounds(2) [OF b] b
    by (intro frac_less2) simp_all
  then have lo: "pow2 (e0 - 1) < x"
    by (simp add: x e0_def pow2_diff [symmetric] algebra_simps)
  have e: "ilog2 x = (if pow2 e0 \<le> x then e0 else e0 - 1)"
    by (simp add: ilog2_def q e0_def Let_def)
  show ?thesis
  proof (cases "pow2 e0 \<le> x")
    case True
    with hi e show ?thesis by simp
  next
    case False
    with lo e show ?thesis by simp
  qed
qed

lemma ilog2_unique:
  assumes "pow2 e \<le> x" and "x < pow2 (e + 1)"
  shows "ilog2 x = e"
proof -
  have "0 < x"
    using assms(1) pow2_pos [of e] by linarith
  from ilog2_bounds [OF this]
  have "pow2 (ilog2 x) \<le> x" and "x < pow2 (ilog2 x + 1)"
    by simp_all
  then have "pow2 (ilog2 x) < pow2 (e + 1)" and "pow2 e < pow2 (ilog2 x + 1)"
    using assms by linarith+
  then show ?thesis
    by (simp add: pow2_less_iff)
qed

lemma round_half_even_of_int: "round_half_even (of_int n) = n"
  by (simp add: round_half_even_def)

lemma round_half_even_error: "\<bar>of_int (round_half_even y) - y\<bar> \<le> 1 / 2"
proof -
  have "of_int \<lfloor>y\<rfloor> \<le> y" and "y < of_int \<lfloor>y\<rfloor> + 1"
    by linarith+
  then show ?thesis
    by (auto simp: round_half_even_def Let_def)
qed

lemma round_half_even_ge: "of_int n \<le> y \<Longrightarrow> n \<le> round_half_even y"
proof -
  assume "of_int n \<le> y"
  then have "n \<le> \<lfloor>y\<rfloor>"
    by (simp add: le_floor_iff)
  then show ?thesis
    by (auto simp: round_half_even_def Let_def)
qed

lemma round_half_even_le: "y \<le> of_int n \<Longrightarrow> round_half_even y \<le> n"
proof (cases "y = of_int n")
  case True
  then show ?thesis by (simp add: round_half_even_of_int)
next
  case False
  assume "y \<le> of_int n"
  with False have "y < of_int n" by simp
  then have "\<lfloor>y\<rfloor> < n"
    by (simp add: floor_less_iff)
  then show ?thesis
    by (auto simp: round_half_even_def Let_def)
qed

lemma round_half_even_threshold:
  assumes "even n"
  shows "n \<le> round_half_even y \<longleftrightarrow> of_int n - 1 / 2 \<le> y"
proof
  assume le: "of_int n - 1 / 2 \<le> y"
  show "n \<le> round_half_even y"
  proof (cases "of_int n \<le> y")
    case True
    then show ?thesis by (rule round_half_even_ge)
  next
    case False
    then have "y < of_int n" by simp
    moreover have "of_int (n - 1) \<le> y" using le by simp
    ultimately have f: "\<lfloor>y\<rfloor> = n - 1"
      by (simp add: floor_unique)
    have "odd (n - 1)" using assms by simp
    with f le show ?thesis
      by (auto simp: round_half_even_def Let_def)
  qed
next
  assume r: "n \<le> round_half_even y"
  show "of_int n - 1 / 2 \<le> y"
  proof (rule ccontr)
    assume "\<not> of_int n - 1 / 2 \<le> y"
    then have lt: "y < of_int n - 1 / 2" by simp
    then have "y < of_int n" by linarith
    then have fl: "\<lfloor>y\<rfloor> \<le> n - 1"
      by (simp add: floor_less_iff)
    have "of_int \<lfloor>y\<rfloor> \<le> y" by linarith
    have "round_half_even y \<le> n - 1"
    proof (cases "\<lfloor>y\<rfloor> = n - 1")
      case True
      then have "y - of_int \<lfloor>y\<rfloor> < 1 / 2" using lt by simp
      then show ?thesis using True by (simp add: round_half_even_def Let_def)
    next
      case False
      with fl have "\<lfloor>y\<rfloor> \<le> n - 2" by simp
      then show ?thesis by (auto simp: round_half_even_def Let_def)
    qed
    with r show False by simp
  qed
qed


lemma float_round_abs:
  "\<bar>float_round x\<bar> =
     (if x = 0 then 0
      else of_int (round_half_even (\<bar>x\<bar> / pow2 (max (ilog2 \<bar>x\<bar>) (- 1022) - 52)))
           * pow2 (max (ilog2 \<bar>x\<bar>) (- 1022) - 52))"
proof (cases "x = 0")
  case True
  then show ?thesis by (simp add: float_round_def)
next
  case False
  let ?u = "pow2 (max (ilog2 \<bar>x\<bar>) (- 1022) - 52)"
  have "0 \<le> \<bar>x\<bar> / ?u"
    by (simp add: less_imp_le)
  then have "0 \<le> round_half_even (\<bar>x\<bar> / ?u)"
    using round_half_even_ge [of 0 "\<bar>x\<bar> / ?u"] by simp
  then have nn: "0 \<le> (of_int (round_half_even (\<bar>x\<bar> / ?u)) :: rat) * ?u"
    by (simp add: less_imp_le)
  have "float_round x = sgn x * (of_int (round_half_even (\<bar>x\<bar> / ?u)) * ?u)"
    using False by (simp add: float_round_def Let_def)
  then have "\<bar>float_round x\<bar> = \<bar>sgn x\<bar> * \<bar>of_int (round_half_even (\<bar>x\<bar> / ?u)) * ?u\<bar>"
    by (simp only: abs_mult)
  also have "\<dots> = of_int (round_half_even (\<bar>x\<bar> / ?u)) * ?u"
    using False nn by (simp only: abs_sgn_eq abs_of_nonneg) simp
  finally show ?thesis
    using False by simp
qed

lemma ilog2_normal:
  assumes "pow2 (- 1022) \<le> \<bar>x\<bar>"
  shows "max (ilog2 \<bar>x\<bar>) (- 1022) = ilog2 \<bar>x\<bar>"
proof -
  have "0 < \<bar>x\<bar>"
    using assms pow2_pos [of "- 1022"] by linarith
  from ilog2_bounds [OF this] have "\<bar>x\<bar> < pow2 (ilog2 \<bar>x\<bar> + 1)"
    by simp
  with assms have "pow2 (- 1022) < pow2 (ilog2 \<bar>x\<bar> + 1)"
    by linarith
  then show ?thesis
    by (simp add: pow2_less_iff)
qed

lemma float_round_error:
  assumes "pow2 (- 1022) \<le> \<bar>x\<bar>"
  shows "\<bar>float_round x - x\<bar> \<le> \<bar>x\<bar> / 2 ^ 53"
proof -
  have pos: "0 < \<bar>x\<bar>"
    using assms pow2_pos [of "- 1022"] by linarith
  then have nz: "x \<noteq> 0" by simp
  define e where "e = ilog2 \<bar>x\<bar>"
  define u where "u = pow2 (e - 52)"
  define n where "n = round_half_even (\<bar>x\<bar> / u)"
  have u: "0 < u" by (simp add: u_def)
  have fr: "float_round x = sgn x * (of_int n * u)"
    using nz ilog2_normal [OF assms] by (simp add: float_round_def Let_def e_def u_def n_def)
  have sx: "sgn x * \<bar>x\<bar> = x"
    by (simp add: sgn_mult_abs)
  have "float_round x - x = sgn x * (of_int n * u) - sgn x * \<bar>x\<bar>"
    by (simp only: fr sx)
  then have "float_round x - x = sgn x * (of_int n * u - \<bar>x\<bar>)"
    by (simp only: right_diff_distrib)
  then have "\<bar>float_round x - x\<bar> = \<bar>of_int n * u - \<bar>x\<bar>\<bar>"
    using nz by (simp add: abs_mult abs_sgn_eq)
  also have "of_int n * u - \<bar>x\<bar> = (of_int n - \<bar>x\<bar> / u) * u"
    using u by (simp add: algebra_simps)
  also have "\<bar>(of_int n - \<bar>x\<bar> / u) * u\<bar> = \<bar>of_int n - \<bar>x\<bar> / u\<bar> * u"
    using u by (simp add: abs_mult)
  also have "\<dots> \<le> (1 / 2) * u"
    using round_half_even_error [of "\<bar>x\<bar> / u"] u
    by (intro mult_right_mono) (simp_all add: n_def)
  also have "(1 / 2) * u = pow2 e / 2 ^ 53"
    by (simp add: u_def pow2_diff pow2_nonneg)
  also have "\<dots> \<le> \<bar>x\<bar> / 2 ^ 53"
    using ilog2_bounds [OF pos] by (simp add: e_def divide_right_mono)
  finally show ?thesis .
qed

lemma float_round_of_int:
  assumes "\<bar>n\<bar> < 2 ^ 53"
  shows "float_round (of_int n) = of_int n"
proof (cases "n = 0")
  case True
  then show ?thesis by (simp add: float_round_def)
next
  case False
  define a :: rat where "a = \<bar>of_int n\<bar>"
  have a1: "1 \<le> a"
    using False by (simp add: a_def flip: of_int_abs)
  have a53: "a < pow2 53"
  proof -
    have "(of_int \<bar>n\<bar> :: rat) < of_int (2 ^ 53)"
      using assms by (simp only: of_int_less_iff)
    then show ?thesis by (simp add: a_def pow2_nonneg)
  qed
  define e where "e = ilog2 a"
  have pos: "0 < a" using a1 by linarith
  from ilog2_bounds [OF pos] have lo: "pow2 e \<le> a" and hi: "a < pow2 (e + 1)"
    by (simp_all add: e_def)
  have "pow2 0 < pow2 (e + 1)"
    using a1 hi by (simp add: pow2_def)
  then have e0: "0 \<le> e" by (simp add: pow2_less_iff)
  have "pow2 e < pow2 53" using lo a53 by linarith
  then have e52: "e \<le> 52" by (simp add: pow2_less_iff)
  define k where "k = nat (52 - e)"
  have u: "pow2 (e - 52) = 1 / 2 ^ k"
    using e52 by (cases "e = 52") (simp_all add: pow2_def k_def)
  have "a / pow2 (e - 52) = of_int (\<bar>n\<bar> * 2 ^ k)"
    by (simp add: u a_def)
  then have r: "round_half_even (a / pow2 (e - 52)) = \<bar>n\<bar> * 2 ^ k"
    by (simp only: round_half_even_of_int)
  have m: "max e (- 1022) = e" using e0 by simp
  have "float_round (of_int n) = sgn (of_int n) * (of_int (\<bar>n\<bar> * 2 ^ k) * (1 / 2 ^ k))"
    using False r m by (simp add: float_round_def Let_def a_def [symmetric] e_def [symmetric] u)
  also have "\<dots> = sgn (of_int n) * \<bar>of_int n\<bar>"
    by simp
  also have "\<dots> = of_int n"
    by (simp add: sgn_mult_abs)
  finally show ?thesis .
qed

lemma float_round_overflow_iff:
  "pow2 1024 \<le> \<bar>float_round x\<bar> \<longleftrightarrow> pow2 1024 - pow2 970 \<le> \<bar>x\<bar>"
proof (cases "x = 0")
  case True
  have "pow2 970 < pow2 1024"
    by (simp add: pow2_less_iff)
  with True show ?thesis
    by (simp add: float_round_def not_le)
next
  case False
  define a where "a = \<bar>x\<bar>"
  define e where "e = ilog2 a"
  define e' where "e' = max e (- 1022)"
  define u where "u = pow2 (e' - 52)"
  define n where "n = round_half_even (a / u)"
  have pos: "0 < a" using False by (simp add: a_def)
  have u: "0 < u" by (simp add: u_def)
  from ilog2_bounds [OF pos] have lo: "pow2 e \<le> a" and hi: "a < pow2 (e + 1)"
    by (simp_all add: e_def)
  have fr: "\<bar>float_round x\<bar> = of_int n * u"
    using False by (simp add: float_round_abs a_def e_def e'_def u_def n_def)
  have p53: "pow2 53 * u = pow2 (e' + 1)"
    using pow2_add [of 53 "e' - 52"] by (simp add: u_def add.commute)
  have p52: "pow2 52 * u = pow2 e'"
    using pow2_add [of 52 "e' - 52"] by (simp add: u_def add.commute)
  have i53: "(of_int (2 ^ 53) :: rat) = pow2 53"
    by (simp add: pow2_nonneg)
  have i52: "(of_int (2 ^ 52) :: rat) = pow2 52"
    by (simp add: pow2_nonneg)
  have half: "pow2 1024 = 2 * pow2 1023"
    using pow2_plus1 [of 1023] by simp
  have small: "pow2 970 \<le> pow2 1023"
    by (simp add: pow2_le_iff)
  consider "1024 \<le> e" | "e \<le> 1022" | "e = 1023"
    by linarith
  then show ?thesis
  proof cases
    case 1
    then have e': "e' = e" by (simp add: e'_def)
    have "pow2 1024 \<le> pow2 e"
      using 1 by (simp add: pow2_le_iff)
    with lo have big: "pow2 1024 \<le> a" by linarith
    have "pow2 52 * u \<le> a"
      using lo p52 e' by simp
    then have "of_int (2 ^ 52) \<le> a / u"
      using u by (simp only: i52 pos_le_divide_eq)
    then have "2 ^ 52 \<le> n"
      unfolding n_def by (rule round_half_even_ge)
    then have "(of_int (2 ^ 52) :: rat) \<le> of_int n"
      by (simp only: of_int_le_iff)
    then have "pow2 52 * u \<le> of_int n * u"
      using u by (simp only: i52 mult_le_cancel_right_pos)
    then have "pow2 1024 \<le> of_int n * u"
      using p52 \<open>pow2 1024 \<le> pow2 e\<close> unfolding e' by linarith
    moreover have "pow2 1024 - pow2 970 \<le> a"
      using big pow2_pos [of 970] by linarith
    ultimately show ?thesis
      by (simp add: fr a_def)
  next
    case 2
    then have e': "e' \<le> 1022" and ee: "e \<le> e'" by (simp_all add: e'_def)
    have "pow2 (e + 1) \<le> pow2 (e' + 1)"
      using ee by (simp add: pow2_le_iff)
    with hi have "a < pow2 53 * u"
      using p53 by linarith
    then have "a / u \<le> of_int (2 ^ 53)"
      using u by (simp only: i53 pos_divide_le_eq less_imp_le)
    then have "n \<le> 2 ^ 53"
      unfolding n_def by (rule round_half_even_le)
    then have "(of_int n :: rat) \<le> of_int (2 ^ 53)"
      by (simp only: of_int_le_iff)
    then have "of_int n * u \<le> pow2 53 * u"
      using u by (simp only: i53 mult_le_cancel_right_pos)
    moreover have "pow2 (e' + 1) \<le> pow2 1023"
      using e' by (simp add: pow2_le_iff)
    ultimately have "of_int n * u \<le> pow2 1023"
      using p53 by linarith
    then have "\<not> pow2 1024 \<le> of_int n * u"
      using half pow2_pos [of 1023] by linarith
    moreover have "a < pow2 1023"
      using hi 2 pow2_mono [of "e + 1" 1023] by simp
    then have "\<not> pow2 1024 - pow2 970 \<le> a"
      using half small by linarith
    ultimately show ?thesis
      by (simp add: fr a_def)
  next
    case 3
    then have e': "e' = 1023" by (simp add: e'_def)
    have u971: "u = pow2 971" by (simp add: u_def e')
    have p1024: "pow2 53 * u = pow2 1024"
      using p53 e' by simp
    have u2: "u = 2 * pow2 970"
      using pow2_plus1 [of 970] by (simp add: u971)
    have "pow2 1024 \<le> of_int n * u \<longleftrightarrow> pow2 53 * u \<le> of_int n * u"
      by (simp only: p1024)
    also have "\<dots> \<longleftrightarrow> (of_int (2 ^ 53) :: rat) \<le> of_int n"
      using u by (simp only: i53 mult_le_cancel_right_pos)
    also have "\<dots> \<longleftrightarrow> 2 ^ 53 \<le> n"
      by (simp only: of_int_le_iff)
    also have "\<dots> \<longleftrightarrow> of_int (2 ^ 53) - 1 / 2 \<le> a / u"
      unfolding n_def by (rule round_half_even_threshold) simp
    also have "\<dots> \<longleftrightarrow> (pow2 53 - 1 / 2) * u \<le> a"
      using u by (simp only: i53 pos_le_divide_eq)
    also have "(pow2 53 - 1 / 2) * u = pow2 1024 - pow2 970"
      using p1024 u2 by (simp add: algebra_simps)
    finally show ?thesis
      by (simp add: fr a_def)
  qed
qed

lemma pow2_1024: "pow2 1024 = 2 ^ 1024"
  by (simp only: pow2_def) simp

lemma pow2_970: "pow2 970 = 2 ^ 970"
  by (simp only: pow2_def) simp

lemma py_truediv_1000:
  "py_truediv m 1000 =
     (if 2 ^ 1024 - 2 ^ 970 \<le> \<bar>of_int m / 1000 :: rat\<bar> then Inl OverflowError
      else Inr (float_round (of_int m / 1000)))"
  using float_round_overflow_iff [of "of_int m / 1000"]
  by (simp only: py_truediv_def Let_def pow2_1024 pow2_970) simp


lemma RemainingDistance_overflow:
  "charging v = Some c \<Longrightarrow> charging_status c = Some st \<Longrightarrow>
   2 ^ 1024 - 2 ^ 970
     \<le> \<bar>of_int (remaining_cruising_range_in_meters (battery st)) / 1000 :: rat\<bar> \<Longrightarrow>
   RemainingDistance_native_value v = Inl OverflowError"
  by (simp add: RemainingDistance_native_value_def ChargingSensor_status_eq py_truediv_1000)

text \<open>
  Claim C7, as stated, fails beyond the range of a float: for a cruising range of
  \<open>1000 * 2\<^sup>1\<^sup>0\<^sup>2\<^sup>4\<close> metres the division raises \<^verbatim>\<open>OverflowError\<close> and the sensor has no
  value.
\<close>

theorem RemainingDistance_overflow_counterexample:
  "RemainingDistance_native_value
     (example_vehicle (Some (example_charging (Some (example_status 50 (1000 * 2 ^ 1024) None None)))))
   = Inl OverflowError"
  by (simp add: RemainingDistance_native_value_def ChargingSensor_status_eq example_vehicle_def
      example_charging_def example_status_def py_truediv_1000)

text \<open>
  Claim C7, amended. With a charging status present and a cruising range of \<open>m\<close> metres
  whose thousandth is below \<open>2\<^sup>1\<^sup>0\<^sup>2\<^sup>4 - 2\<^sup>9\<^sup>7\<^sup>0\<close> in magnitude, the native value of
  \<^verbatim>\<open>RemainingDistance\<close> is the float nearest to \<open>m / 1000\<close>: it differs from the quotient
  by at most the fraction \<open>2\<^sup>-\<^sup>5\<^sup>3\<close> of it, and it is the quotient itself when \<open>m\<close> is a
  multiple of 1000 below \<open>1000 * 2\<^sup>5\<^sup>3\<close> in magnitude. For 123000 metres it is 123.0.
\<close>

theorem RemainingDistance_kilometers:
  "charging v = Some c \<Longrightarrow> charging_status c = Some st \<Longrightarrow>
   m = remaining_cruising_range_in_meters (battery st) \<Longrightarrow>
   \<bar>of_int m / 1000 :: rat\<bar> < 2 ^ 1024 - 2 ^ 970 \<Longrightarrow>
   RemainingDistance_native_value v = Inr (Some (VFloat (float_round (of_int m / 1000))))
   \<and> \<bar>float_round (of_int m / 1000) - of_int m / 1000\<bar> \<le> \<bar>of_int m / 1000\<bar> / 2 ^ 53
   \<and> (1000 dvd m \<and> \<bar>m\<bar> < 1000 * 2 ^ 53 \<longrightarrow>
        RemainingDistance_native_value v = Inr (Some (VFloat (of_int (m div 1000)))))
   \<and> (m = 123000 \<longrightarrow> RemainingDistance_native_value v = Inr (Some (VFloat 123)))"
proof -
  assume c: "charging v = Some c" and st: "charging_status c = Some st"
    and m: "m = remaining_cruising_range_in_meters (battery st)"
    and bound: "\<bar>of_int m / 1000 :: rat\<bar> < 2 ^ 1024 - 2 ^ 970"
  let ?q = "of_int m / 1000 :: rat"
  have val: "RemainingDistance_native_value v = Inr (Some (VFloat (float_round ?q)))"
    using c st m bound
    by (simp add: RemainingDistance_native_value_def ChargingSensor_status_eq py_truediv_1000)
  have err: "\<bar>float_round ?q - ?q\<bar> \<le> \<bar>?q\<bar> / 2 ^ 53"
  proof (cases "m = 0")
    case True
    then show ?thesis by (simp add: float_round_def)
  next
    case False
    then have "1 \<le> \<bar>m\<bar>" by simp
    then have "(1 :: rat) \<le> of_int \<bar>m\<bar>" by (simp only: of_int_1_le_iff)
    then have "1 / 1000 \<le> \<bar>?q\<bar>" by simp
    moreover have "pow2 (- 1022) \<le> 1 / 1000"
      by (simp add: pow2_def)
    ultimately have "pow2 (- 1022) \<le> \<bar>?q\<bar>" by linarith
    then show ?thesis by (rule float_round_error)
  qed
  have exact: "1000 dvd m \<and> \<bar>m\<bar> < 1000 * 2 ^ 53 \<longrightarrow>
        RemainingDistance_native_value v = Inr (Some (VFloat (of_int (m div 1000))))"
  proof
    assume a: "1000 dvd m \<and> \<bar>m\<bar> < 1000 * 2 ^ 53"
    then obtain k where k: "m = 1000 * k" by (auto simp: dvd_def)
    with a have "\<bar>k\<bar> < 2 ^ 53" by (simp add: abs_mult)
    then have "float_round (of_int k) = of_int k" by (rule float_round_of_int)
    moreover have "?q = of_int k" by (simp add: k)
    moreover have "m div 1000 = k" by (simp add: k)
    ultimately show "RemainingDistance_native_value v = Inr (Some (VFloat (of_int (m div 1000))))"
      by (simp add: val)
  qed
  have "m = 123000 \<longrightarrow> RemainingDistance_native_value v = Inr (Some (VFloat 123))"
    using exact by simp
  with val err exact show ?thesis by blast
qed

theorem RemainingDistance_kilometers_witness:
  "\<bar>of_int 123000 / 1000 :: rat\<bar> < 2 ^ 1024 - 2 ^ 970
   \<and> RemainingDistance_native_value
     (example_vehicle (Some (example_charging (Some (example_status 50 123000 None None)))))
   = Inr (Some (VFloat 123))"
proof -
  let ?st = "example_status 50 123000 None None"
  let ?c = "example_charging (Some ?st)"
  let ?v = "example_vehicle (Some ?c)"
  have h1: "charging ?v = Some ?c"
    by (simp add: example_vehicle_def)
  have h2: "charging_status ?c = Some ?st"
    by (simp add: example_charging_def)
  have h3: "123000 = remaining_cruising_range_in_meters (battery ?st)"
    by (simp add: example_status_def)
  have h4: "\<bar>of_int 123000 / 1000 :: rat\<bar> < 2 ^ 1024 - 2 ^ 970"
    by simp
  from RemainingDistance_kilometers [OF h1 h2 h3 h4]
  have "RemainingDistance_native_value ?v = Inr (Some (VFloat 123))"
    by blast
  with h4 show ?thesis
    by blast
qed

end
